theory Spec2Isabelle
  imports Main
begin

section \<open>Data model\<close>

text \<open>
  The views of \<^verbatim>\<open>account/api/base/views.py\<close> are handlers over a relational store, an
  email service and a clock. The store is a record of tables (lists of rows), the
  email service an outbox, and \<^verbatim>\<open>timezone.now()\<close> a clock reading \<open>now\<close> given to each
  handler. A handler returns its outcome (a raised exception or a response) together
  with the store it leaves behind, so that what was written before a raise stays visible.
\<close>

subsection \<open>Values, rows and requests\<close>

text \<open>
  A password-reset token, kept as the signed struct it stands for: the user id, the
  last-login it was signed over, and the time of issue.
\<close>

record reset_token =
  tok_uid :: nat
  tok_login :: "nat option"
  tok_ts :: nat

text \<open>JSON-like values of request and response bodies (Python dicts keep their key order).\<close>

datatype json =
    JNull
  | JBool bool
  | JNat nat
  | JStr string
  | JResetToken reset_token
  | JObj "(string \<times> json) list"

text \<open>A Python dict with string keys; \<^verbatim>\<open>d.get(k)\<close> is \<open>dict_get d k\<close>.\<close>

type_synonym dict = "(string \<times> json) list"

definition dict_get :: "dict \<Rightarrow> string \<Rightarrow> json option" where
  "dict_get d k = map_of d k"

text \<open>\<^verbatim>\<open>account.models.User\<close>: the fields the views read and write.\<close>

record user =
  pk :: nat
  email :: string
  password :: string
  is_active :: bool
  verified_email :: bool
  last_login :: "nat option"

text \<open>
  \<^verbatim>\<open>account.models.Profile\<close>, one-to-one with a user through \<open>user_id\<close>; its other
  columns (the display names) are kept as a dict.
\<close>

record profile =
  profile_id :: nat
  user_id :: nat
  profile_fields :: dict

record mail =
  mail_email :: string
  mail_subject :: string
  mail_template :: string
  mail_context :: dict

record world =
  users :: "user list"
  profiles :: "profile list"
  outbox :: "mail list"

datatype http_method = GET | POST | PUT | PATCH | DELETE | HEAD | OPTIONS | TRACE

text \<open>
  A request: its method, its parsed body, the authenticated principal
  (\<^verbatim>\<open>request.user.id\<close>, \<open>None\<close> for an anonymous caller) and the \<^verbatim>\<open>id\<close> of the URL.
\<close>

record request =
  http_method :: http_method
  data :: dict
  req_user :: "nat option"
  url_id :: nat

subsection \<open>Exceptions and responses\<close>

datatype error =
    ValidationError
  | TokenError string
  | InvalidToken string
  | AuthenticationFailed
  | NotAuthenticated
  | PermissionDenied
  | Http404
  | MethodNotAllowed
  | DoesNotExist
  | MultipleObjectsReturned
  | RelatedObjectDoesNotExist
  | EmailError
  | TypeError
  | ValueError

text \<open>
  The status the framework's exception handler gives a raised exception: the API
  exceptions carry their own, anything else is a server error.
\<close>

fun status_code :: "error \<Rightarrow> nat" where
  "status_code ValidationError = 400"
| "status_code (InvalidToken m) = 401"
| "status_code AuthenticationFailed = 401"
| "status_code NotAuthenticated = 401"
| "status_code PermissionDenied = 403"
| "status_code Http404 = 404"
| "status_code MethodNotAllowed = 405"
| "status_code e = 500"

record response =
  resp_data :: json
  resp_status :: nat

text \<open>
  The \<^verbatim>\<open>status\<close> argument of \<^verbatim>\<open>Response\<close>: the views pass nothing, a constant of
  \<^verbatim>\<open>rest_framework.status\<close>, or (in \<^verbatim>\<open>RegisterAPIView.create\<close>) the string \<^verbatim>\<open>'201'\<close>.
\<close>

datatype status_arg = StatusInt nat | StatusStr string

definition HTTP_200_OK :: nat where
  "HTTP_200_OK = 200"

definition HTTP_400_BAD_REQUEST :: nat where
  "HTTP_400_BAD_REQUEST = 400"

definition digit_of :: "char \<Rightarrow> nat option" where
  "digit_of c =
     (let n = (of_char c :: nat) in if 48 \<le> n \<and> n \<le> 57 then Some (n - 48) else None)"

fun int_digits :: "nat \<Rightarrow> string \<Rightarrow> nat option" where
  "int_digits acc [] = Some acc"
| "int_digits acc (c # cs) =
     (case digit_of c of None \<Rightarrow> None | Some d \<Rightarrow> int_digits (10 * acc + d) cs)"

text \<open>
  Python's \<^verbatim>\<open>int(s)\<close> on a string of decimal digits; any other string (signs, blanks
  and underscores are not used by the views) is the \<^verbatim>\<open>ValueError\<close> branch, \<open>None\<close>.
\<close>

definition py_int :: "string \<Rightarrow> nat option" where
  "py_int s = (if s = [] then None else int_digits 0 s)"

text \<open>
  \<^verbatim>\<open>Response(data, status)\<close>: the base class converts the status with \<^verbatim>\<open>int\<close> and
  refuses what is not an integer from 100 to 599; no status means 200.
\<close>

definition Response :: "json \<Rightarrow> status_arg option \<Rightarrow> error + response" where
  "Response d st =
     (case st of
        None \<Rightarrow> Inr \<lparr>resp_data = d, resp_status = 200\<rparr>
      | Some a \<Rightarrow>
          (case (case a of StatusInt n \<Rightarrow> Some n | StatusStr s \<Rightarrow> py_int s) of
             None \<Rightarrow> Inl TypeError
           | Some n \<Rightarrow>
               if 100 \<le> n \<and> n \<le> 599 then Inr \<lparr>resp_data = d, resp_status = n\<rparr>
               else Inl ValueError))"

text \<open>The \<^verbatim>\<open>code\<close> entry of a response body, as a client reads it.\<close>

definition response_code :: "response \<Rightarrow> json option" where
  "response_code resp = (case resp_data resp of JObj d \<Rightarrow> dict_get d ''code'' | _ \<Rightarrow> None)"

type_synonym result = "(error + response) \<times> world"

subsection \<open>The store\<close>

text \<open>
  \<^verbatim>\<open>User.objects.get(email=e)\<close>: the one row with that email, \<^verbatim>\<open>DoesNotExist\<close> when there
  is none (also when the value looked up is not a string), and
  \<^verbatim>\<open>MultipleObjectsReturned\<close> when there are several.
\<close>

definition User_objects_get :: "json option \<Rightarrow> user list \<Rightarrow> error + user" where
  "User_objects_get e us =
     (case filter (\<lambda>u. Some (JStr (email u)) = e) us of
        [] \<Rightarrow> Inl DoesNotExist
      | [u] \<Rightarrow> Inr u
      | _ \<Rightarrow> Inl MultipleObjectsReturned)"

fun get_by_pk :: "nat \<Rightarrow> user list \<Rightarrow> user option" where
  "get_by_pk k [] = None"
| "get_by_pk k (u # us) = (if pk u = k then Some u else get_by_pk k us)"

text \<open>
  \<^verbatim>\<open>user.save()\<close>: the row with the object's primary key is overwritten by the object;
  an object whose key is in no row is inserted.
\<close>

definition user_save :: "user \<Rightarrow> world \<Rightarrow> world" where
  "user_save u w =
     (if get_by_pk (pk u) (users w) = None then w\<lparr>users := users w @ [u]\<rparr>
      else w\<lparr>users := map (\<lambda>v. if pk v = pk u then u else v) (users w)\<rparr>)"

text \<open>
  \<^verbatim>\<open>user.profile\<close>: the related row, \<^verbatim>\<open>RelatedObjectDoesNotExist\<close> when the user has none.
\<close>

definition user_profile :: "user \<Rightarrow> world \<Rightarrow> error + profile" where
  "user_profile u w =
     (case filter (\<lambda>p. user_id p = pk u) (profiles w) of
        [] \<Rightarrow> Inl RelatedObjectDoesNotExist
      | p # ps \<Rightarrow> Inr p)"



subsection \<open>Collaborators outside the views\<close>

datatype api_response = EMAIL_NOT_VERIFIED | ACCOUNT_NOT_ACTIVE

text \<open>
  Modelled from the spec: \<^verbatim>\<open>utils.base.errors.ApiResponse\<close> is not among the sources. The
  spec names the two codes of the login errors, \<^verbatim>\<open>EMAIL_NOT_VERIFIED\<close> and
  \<^verbatim>\<open>ACCOUNT_NOT_ACTIVE\<close>; their \<^verbatim>\<open>detail\<close> texts are a parameter.
\<close>

fun ApiResponse_code :: "api_response \<Rightarrow> string" where
  "ApiResponse_code EMAIL_NOT_VERIFIED = ''EMAIL_NOT_VERIFIED''"
| "ApiResponse_code ACCOUNT_NOT_ACTIVE = ''ACCOUNT_NOT_ACTIVE''"

text \<open>
  What the views call and the sources do not hold: the serializers, the JWT library,
  the settings and the email service. A serializer field is \<^verbatim>\<open>is_valid(raise_exception=True)\<close>
  followed by \<^verbatim>\<open>validated_data\<close>: the exception raised, or the validated dict.
\<close>

record env =
  LoginSerializer :: "dict \<Rightarrow> user list \<Rightarrow> error + dict"
  UserSerializer :: "user \<Rightarrow> json"
  get_tokens_for_user :: "user \<Rightarrow> json"
  ApiResponse_detail :: "api_response \<Rightarrow> string"
  verification_message :: "user \<Rightarrow> mail"
  delivers :: "mail \<Rightarrow> bool"
  TokenRefreshSerializer :: "dict \<Rightarrow> nat \<Rightarrow> error + dict"
  get_validated_token :: "json option \<Rightarrow> error + nat option"
  urlsafe_base64_encode :: "nat \<Rightarrow> string"
  CLIENT_RESET_URL :: string
  ResetPasswordTokenValidateSerializer :: "dict \<Rightarrow> world \<Rightarrow> nat \<Rightarrow> error + dict"
  ResetPasswordSerializer_is_valid :: "dict \<Rightarrow> world \<Rightarrow> nat \<Rightarrow> error + dict"
  ResetPasswordSerializer_save :: "dict \<Rightarrow> world \<Rightarrow> user \<times> world"
  password_policy :: "string \<Rightarrow> bool"
  make_password :: "string \<Rightarrow> string"
  ProfileSerializer_data :: "profile \<Rightarrow> json"
  ProfileSerializer_is_valid :: "bool \<Rightarrow> profile \<Rightarrow> dict \<Rightarrow> error + dict"
  ProfileSerializer_update :: "profile \<Rightarrow> dict \<Rightarrow> profile"
  fullname_of :: "dict \<Rightarrow> string"
  view_metadata :: json

text \<open>\<^verbatim>\<open>profile.get_fullname\<close>, the full name derived from the profile's names.\<close>

definition get_fullname :: "env \<Rightarrow> profile \<Rightarrow> string" where
  "get_fullname E p = fullname_of E (profile_fields p)"

text \<open>
  The email service (\<^verbatim>\<open>utils.base.email_service\<close>, not among the sources): handing it
  a message either returns, and the message is in the outbox, or raises in the caller;
  \<open>delivers\<close> says which.
\<close>

definition email_service_send :: "env \<Rightarrow> mail \<Rightarrow> world \<Rightarrow> error + world" where
  "email_service_send E m w =
     (if delivers E m then Inr (w\<lparr>outbox := outbox w @ [m]\<rparr>) else Inl EmailError)"

text \<open>
  Modelled from the spec: \<^verbatim>\<open>send_verification_email\<close> of \<^verbatim>\<open>account/api/base/utils.py\<close> is
  not among the sources. It sends the verification email to the given user: the
  message, whatever its text, goes to that user's address through the email service.
\<close>

definition send_verification_email :: "env \<Rightarrow> user \<Rightarrow> request \<Rightarrow> world \<Rightarrow> error + world" where
  "send_verification_email E u r w =
     email_service_send E ((verification_message E u)\<lparr>mail_email := email u\<rparr>) w"

text \<open>
  Modelled from the spec: \<^verbatim>\<open>password_reset_generator\<close> of \<^verbatim>\<open>account/api/base/tokens.py\<close> is
  not among the sources. The token is bound to the user's identity and state (its
  signing input includes last-login) and to the time of issue; it is kept as the signed
  struct itself, so that a token checks exactly when it is the one made for the user's
  present state at its own time of issue, and that time is neither in the future nor
  further back than the timeout.
\<close>

definition make_token :: "user \<Rightarrow> nat \<Rightarrow> reset_token" where
  "make_token u t = \<lparr>tok_uid = pk u, tok_login = last_login u, tok_ts = t\<rparr>"

definition check_token :: "nat \<Rightarrow> user \<Rightarrow> reset_token \<Rightarrow> nat \<Rightarrow> bool" where
  "check_token timeout u tok t =
     (tok = make_token u (tok_ts tok) \<and> tok_ts tok \<le> t \<and> t - tok_ts tok \<le> timeout)"

text \<open>
  A token issued before the clock read \<open>now\<close>: its time of issue is earlier, and the
  last-login it was signed over was not later than its time of issue (last-login is
  only ever set to the clock reading of a request).
\<close>

definition issued_before :: "reset_token \<Rightarrow> nat \<Rightarrow> bool" where
  "issued_before tok now =
     (tok_ts tok < now \<and> (case tok_login tok of None \<Rightarrow> True | Some l \<Rightarrow> l \<le> tok_ts tok))"

text \<open>
  \<^verbatim>\<open>JWTAuthentication.get_user\<close>: the user of the token's id claim; a token with no
  claim is invalid, an unknown or inactive user fails authentication.
\<close>

definition get_user :: "nat option \<Rightarrow> world \<Rightarrow> error + user" where
  "get_user tok w =
     (case tok of
        None \<Rightarrow> Inl (InvalidToken ''Token contained no recognizable user identification'')
      | Some k \<Rightarrow>
          (case get_by_pk k (users w) of
             None \<Rightarrow> Inl AuthenticationFailed
           | Some u \<Rightarrow> if is_active u then Inr u else Inl AuthenticationFailed))"

section \<open>The views\<close>

subsection \<open>TokenRefreshAPIView\<close>

text \<open>
  \<^verbatim>\<open>TokenRefreshAPIView.post\<close>: a \<^verbatim>\<open>TokenError\<close> of the serializer is raised again as
  \<^verbatim>\<open>InvalidToken\<close> with its message; any other exception passes through. Then the user
  of the new access token gets the clock reading as last-login and is saved.
\<close>

definition TokenRefreshAPIView_post :: "env \<Rightarrow> nat \<Rightarrow> request \<Rightarrow> world \<Rightarrow> result" where
  "TokenRefreshAPIView_post E now r w =
     (case TokenRefreshSerializer E (data r) now of
        Inl e \<Rightarrow> (case e of TokenError m \<Rightarrow> (Inl (InvalidToken m), w) | _ \<Rightarrow> (Inl e, w))
      | Inr validated_data \<Rightarrow>
          (case get_validated_token E (dict_get validated_data ''access'') of
             Inl e \<Rightarrow> (Inl e, w)
           | Inr validated_token \<Rightarrow>
               (case get_user validated_token w of
                  Inl e \<Rightarrow> (Inl e, w)
                | Inr u \<Rightarrow>
                    (Response (JObj validated_data) (Some (StatusInt HTTP_200_OK)),
                     user_save (u\<lparr>last_login := Some now\<rparr>) w))))"

subsection \<open>LoginAPIView\<close>

definition error_body :: "env \<Rightarrow> api_response \<Rightarrow> json" where
  "error_body E a =
     JObj [(''detail'', JStr (ApiResponse_detail E a)), (''code'', JStr (ApiResponse_code a))]"

text \<open>
  \<^verbatim>\<open>LoginAPIView.post\<close>. The user payload is serialized before last-login is set, so
  it shows the user as found.
\<close>

definition LoginAPIView_post :: "env \<Rightarrow> nat \<Rightarrow> request \<Rightarrow> world \<Rightarrow> result" where
  "LoginAPIView_post E now r w =
     (case LoginSerializer E (data r) (users w) of
        Inl e \<Rightarrow> (Inl e, w)
      | Inr validated_data \<Rightarrow>
          (case User_objects_get (dict_get validated_data ''email'') (users w) of
             Inl e \<Rightarrow> (Inl e, w)
           | Inr u \<Rightarrow>
               if is_active u then
                 if verified_email u then
                   (let user_details = UserSerializer E u;
                        response_data =
                          JObj [(''tokens'', get_tokens_for_user E u), (''user'', user_details)]
                    in (Response response_data None, user_save (u\<lparr>last_login := Some now\<rparr>) w))
                 else
                   (case send_verification_email E u r w of
                      Inl e \<Rightarrow> (Inl e, w)
                    | Inr w' \<Rightarrow>
                        (Response (error_body E EMAIL_NOT_VERIFIED)
                           (Some (StatusInt HTTP_400_BAD_REQUEST)), w'))
               else
                 (Response (error_body E ACCOUNT_NOT_ACTIVE)
                    (Some (StatusInt HTTP_400_BAD_REQUEST)), w)))"

subsection \<open>RegisterAPIView\<close>

record registration =
  reg_email :: string
  reg_password :: string
  reg_names :: dict

definition str_field :: "dict \<Rightarrow> string \<Rightarrow> string option" where
  "str_field d k = (case dict_get d k of Some (JStr s) \<Rightarrow> Some s | _ \<Rightarrow> None)"

text \<open>
  Modelled from the spec: \<^verbatim>\<open>RegisterSerializer\<close> of \<^verbatim>\<open>account/api/base/serializers.py\<close> is
  not among the sources. Its validation is the schema's: an email that no user has
  yet, and a password that meets the policy.
\<close>

definition RegisterSerializer_is_valid :: "env \<Rightarrow> dict \<Rightarrow> world \<Rightarrow> error + registration" where
  "RegisterSerializer_is_valid E d w =
     (case (str_field d ''email'', str_field d ''password'') of
        (Some e, Some p) \<Rightarrow>
          if filter (\<lambda>u. email u = e) (users w) \<noteq> [] then Inl ValidationError
          else if \<not> password_policy E p then Inl ValidationError
          else Inr \<lparr>reg_email = e, reg_password = p,
                    reg_names = filter (\<lambda>(k, v). k \<noteq> ''email'' \<and> k \<noteq> ''password'') d\<rparr>
      | _ \<Rightarrow> Inl ValidationError)"

definition new_pk :: "user list \<Rightarrow> nat" where
  "new_pk us = Suc (fold max (map pk us) 0)"

definition new_profile_id :: "profile list \<Rightarrow> nat" where
  "new_profile_id ps = Suc (fold max (map profile_id ps) 0)"

text \<open>
  Modelled from the spec: \<^verbatim>\<open>RegisterSerializer.save\<close> creates the user, active and not
  verified, with no last-login and a hashed password, and with it the user's profile.
\<close>

definition RegisterSerializer_save :: "env \<Rightarrow> registration \<Rightarrow> world \<Rightarrow> user \<times> world" where
  "RegisterSerializer_save E g w =
     (let u = \<lparr>pk = new_pk (users w), email = reg_email g,
                password = make_password E (reg_password g), is_active = True,
                verified_email = False, last_login = None\<rparr>;
          p = \<lparr>profile_id = new_profile_id (profiles w), user_id = pk u,
                profile_fields = reg_names g\<rparr>
      in (u, w\<lparr>users := users w @ [u], profiles := profiles w @ [p]\<rparr>))"

text \<open>
  \<^verbatim>\<open>RegisterAPIView.create\<close>: the status of the response is the string \<^verbatim>\<open>'201'\<close>. The
  user is in the store before the email is sent, and stays there if sending raises.
\<close>

definition RegisterAPIView_create :: "env \<Rightarrow> nat \<Rightarrow> request \<Rightarrow> world \<Rightarrow> result" where
  "RegisterAPIView_create E now r w =
     (case RegisterSerializer_is_valid E (data r) w of
        Inl e \<Rightarrow> (Inl e, w)
      | Inr g \<Rightarrow>
          (case RegisterSerializer_save E g w of
             (u, w1) \<Rightarrow>
               (case send_verification_email E u r w1 of
                  Inl e \<Rightarrow> (Inl e, w1)
                | Inr w2 \<Rightarrow> (Response (UserSerializer E u) (Some (StatusStr ''201'')), w2))))"

definition RegisterAPIView_post :: "env \<Rightarrow> nat \<Rightarrow> request \<Rightarrow> world \<Rightarrow> result" where
  "RegisterAPIView_post E now r w = RegisterAPIView_create E now r w"

subsection \<open>Password reset\<close>

definition generic_forget_response :: json where
  "generic_forget_response =
     JObj [(''detail'', JStr ''Password reset email sent if the email exists'')]"

text \<open>The message \<^verbatim>\<open>ForgetPasswordView.post\<close> hands to \<^verbatim>\<open>email_service.send_html\<close>.\<close>

definition password_reset_mail :: "env \<Rightarrow> user \<Rightarrow> profile \<Rightarrow> string \<Rightarrow> reset_token \<Rightarrow> mail" where
  "password_reset_mail E u p uidb64 token =
     \<lparr>mail_email = email u,
      mail_subject = ''Password Reset'',
      mail_template = ''account/email/password_reset.html'',
      mail_context =
        [(''user_name'', JStr (get_fullname E p)),
         (''uidb64'', JStr uidb64),
         (''token'', JResetToken token),
         (''CLIENT_RESET_URL'', JStr (CLIENT_RESET_URL E))]\<rparr>"

text \<open>
  The \<^verbatim>\<open>try\<close> block of \<^verbatim>\<open>ForgetPasswordView.post\<close>: the lookup, the encoded user id and
  the token, then the arguments of \<^verbatim>\<open>send_html\<close> (among them \<^verbatim>\<open>user.profile\<close>, which
  raises for a user without profile), then the send.
\<close>

definition ForgetPasswordView_try :: "env \<Rightarrow> nat \<Rightarrow> request \<Rightarrow> world \<Rightarrow> error + world" where
  "ForgetPasswordView_try E now r w =
     (case User_objects_get (dict_get (data r) ''email'') (users w) of
        Inl e \<Rightarrow> Inl e
      | Inr u \<Rightarrow>
          (let uidb64 = urlsafe_base64_encode E (pk u);
               token = make_token u now
           in case user_profile u w of
                Inl e \<Rightarrow> Inl e
              | Inr p \<Rightarrow> email_service_send E (password_reset_mail E u p uidb64 token) w))"

text \<open>
  \<^verbatim>\<open>ForgetPasswordView.post\<close>: only \<^verbatim>\<open>User.DoesNotExist\<close> is caught; after the \<^verbatim>\<open>try\<close>
  statement the same response is returned.
\<close>

definition ForgetPasswordView_post :: "env \<Rightarrow> nat \<Rightarrow> request \<Rightarrow> world \<Rightarrow> result" where
  "ForgetPasswordView_post E now r w =
     (case ForgetPasswordView_try E now r w of
        Inl e \<Rightarrow>
          if e = DoesNotExist then (Response generic_forget_response None, w) else (Inl e, w)
      | Inr w' \<Rightarrow> (Response generic_forget_response None, w'))"

definition ValidateResetPasswordTokenView_post :: "env \<Rightarrow> nat \<Rightarrow> request \<Rightarrow> world \<Rightarrow> result" where
  "ValidateResetPasswordTokenView_post E now r w =
     (case ResetPasswordTokenValidateSerializer E (data r) w now of
        Inl e \<Rightarrow> (Inl e, w)
      | Inr validated_data \<Rightarrow> (Response (JObj [(''message'', JStr ''Token is valid'')]) None, w))"

text \<open>
  \<^verbatim>\<open>ForgetResetPasswordView.post\<close>: the serializer saves the new password and returns
  the user; the view then sets last-login to the clock reading and saves again.
\<close>

definition ForgetResetPasswordView_post :: "env \<Rightarrow> nat \<Rightarrow> request \<Rightarrow> world \<Rightarrow> result" where
  "ForgetResetPasswordView_post E now r w =
     (case ResetPasswordSerializer_is_valid E (data r) w now of
        Inl e \<Rightarrow> (Inl e, w)
      | Inr validated_data \<Rightarrow>
          (case ResetPasswordSerializer_save E validated_data w of
             (u, w1) \<Rightarrow>
               (Response (JObj [(''detail'', JStr ''Password reset successful.'')]) None,
                user_save (u\<lparr>last_login := Some now\<rparr>) w1)))"

subsection \<open>ProfileAPIView\<close>




section \<open>Dispatch\<close>

datatype permission = AllowAny | IsAuthenticated

fun has_permission :: "permission \<Rightarrow> request \<Rightarrow> bool" where
  "has_permission AllowAny r = True"
| "has_permission IsAuthenticated r = (req_user r \<noteq> None)"

fun method_name :: "http_method \<Rightarrow> string" where
  "method_name GET = ''get''"
| "method_name POST = ''post''"
| "method_name PUT = ''put''"
| "method_name PATCH = ''patch''"
| "method_name DELETE = ''delete''"
| "method_name HEAD = ''head''"
| "method_name OPTIONS = ''options''"
| "method_name TRACE = ''trace''"

definition default_http_method_names :: "string list" where
  "default_http_method_names =
     [''get'', ''post'', ''put'', ''patch'', ''delete'', ''head'', ''options'', ''trace'']"

text \<open>
  \<^verbatim>\<open>APIView.check_permissions\<close>: a refused request raises \<^verbatim>\<open>NotAuthenticated\<close> when no
  authenticator accepted the caller, \<^verbatim>\<open>PermissionDenied\<close> otherwise.
\<close>

definition check_permissions :: "permission list \<Rightarrow> request \<Rightarrow> error option" where
  "check_permissions perms r =
     (if list_all (\<lambda>p. has_permission p r) perms then None
      else if req_user r = None then Some NotAuthenticated
      else Some PermissionDenied)"

text \<open>
  \<^verbatim>\<open>APIView.dispatch\<close>: the permissions are checked first; then the handler is the
  method of the view named after the request's method, when that name is among
  \<^verbatim>\<open>http_method_names\<close> and the view has such a method, and \<^verbatim>\<open>http_method_not_allowed\<close>
  otherwise.
\<close>

definition dispatch ::
  "permission list \<Rightarrow> string list \<Rightarrow> (string \<times> (request \<Rightarrow> world \<Rightarrow> result)) list \<Rightarrow>
   request \<Rightarrow> world \<Rightarrow> result" where
  "dispatch permission_classes http_method_names handlers r w =
     (case check_permissions permission_classes r of
        Some e \<Rightarrow> (Inl e, w)
      | None \<Rightarrow>
          if List.member http_method_names (method_name (http_method r)) then
            (case map_of handlers (method_name (http_method r)) of
               Some handler \<Rightarrow> handler r w
             | None \<Rightarrow> (Inl MethodNotAllowed, w))
          else (Inl MethodNotAllowed, w))"

text \<open>\<^verbatim>\<open>APIView.options\<close>, which every view inherits.\<close>

definition APIView_options :: "env \<Rightarrow> request \<Rightarrow> world \<Rightarrow> result" where
  "APIView_options E r w = (Response (view_metadata E) (Some (StatusInt HTTP_200_OK)), w)"

text \<open>The views as the URL configuration calls them, each with its class attributes.\<close>

definition TokenRefreshAPIView :: "env \<Rightarrow> nat \<Rightarrow> request \<Rightarrow> world \<Rightarrow> result" where
  "TokenRefreshAPIView E now =
     dispatch [IsAuthenticated] default_http_method_names
       [(''post'', TokenRefreshAPIView_post E now), (''options'', APIView_options E)]"

definition LoginAPIView :: "env \<Rightarrow> nat \<Rightarrow> request \<Rightarrow> world \<Rightarrow> result" where
  "LoginAPIView E now =
     dispatch [AllowAny] default_http_method_names
       [(''post'', LoginAPIView_post E now), (''options'', APIView_options E)]"

definition RegisterAPIView :: "env \<Rightarrow> nat \<Rightarrow> request \<Rightarrow> world \<Rightarrow> result" where
  "RegisterAPIView E now =
     dispatch [AllowAny] default_http_method_names
       [(''post'', RegisterAPIView_post E now), (''options'', APIView_options E)]"

definition ForgetPasswordView :: "env \<Rightarrow> nat \<Rightarrow> request \<Rightarrow> world \<Rightarrow> result" where
  "ForgetPasswordView E now =
     dispatch [IsAuthenticated] default_http_method_names
       [(''post'', ForgetPasswordView_post E now), (''options'', APIView_options E)]"

definition ValidateResetPasswordTokenView :: "env \<Rightarrow> nat \<Rightarrow> request \<Rightarrow> world \<Rightarrow> result" where
  "ValidateResetPasswordTokenView E now =
     dispatch [IsAuthenticated] default_http_method_names
       [(''post'', ValidateResetPasswordTokenView_post E now), (''options'', APIView_options E)]"

definition ForgetResetPasswordView :: "env \<Rightarrow> nat \<Rightarrow> request \<Rightarrow> world \<Rightarrow> result" where
  "ForgetResetPasswordView E now =
     dispatch [IsAuthenticated] default_http_method_names
       [(''post'', ForgetResetPasswordView_post E now), (''options'', APIView_options E)]"


section \<open>A concrete deployment\<close>

text \<open>
  One instance of the collaborators and a small store, on which the theorems below are
  exercised. Tokens of the JWT library are kept as their payloads.
\<close>

definition jwt :: "string \<Rightarrow> nat \<Rightarrow> nat \<Rightarrow> json" where
  "jwt ty k exp = JObj [(''token_type'', JStr ty), (''user_id'', JNat k), (''exp'', JNat exp)]"

definition jwt_claims :: "json option \<Rightarrow> (string \<times> nat \<times> nat) option" where
  "jwt_claims j =
     (case j of
        Some (JObj c) \<Rightarrow>
          (case (dict_get c ''token_type'', dict_get c ''user_id'', dict_get c ''exp'') of
             (Some (JStr ty), Some (JNat k), Some (JNat exp)) \<Rightarrow> Some (ty, k, exp)
           | _ \<Rightarrow> None)
      | _ \<Rightarrow> None)"

definition site_password_hash :: "string \<Rightarrow> string" where
  "site_password_hash p = ''hash:'' @ p"

definition site_login_serializer :: "dict \<Rightarrow> user list \<Rightarrow> error + dict" where
  "site_login_serializer d us =
     (case (str_field d ''email'', str_field d ''password'') of
        (Some e, Some p) \<Rightarrow>
          (case filter (\<lambda>u. email u = e) us of
             [u] \<Rightarrow> if password u = site_password_hash p then Inr d else Inl ValidationError
           | _ \<Rightarrow> Inl ValidationError)
      | _ \<Rightarrow> Inl ValidationError)"

definition site_refresh_serializer :: "dict \<Rightarrow> nat \<Rightarrow> error + dict" where
  "site_refresh_serializer d now =
     (case dict_get d ''refresh'' of
        None \<Rightarrow> Inl ValidationError
      | Some j \<Rightarrow>
          (case jwt_claims (Some j) of
             Some (ty, k, exp) \<Rightarrow>
               if ty = ''refresh'' \<and> now < exp then Inr [(''access'', jwt ''access'' k (now + 5))]
               else Inl (TokenError ''Token is invalid or expired'')
           | None \<Rightarrow> Inl (TokenError ''Token is invalid or expired'')))"

definition site_get_validated_token :: "json option \<Rightarrow> error + nat option" where
  "site_get_validated_token j =
     (case jwt_claims j of
        Some (ty, k, exp) \<Rightarrow>
          if ty = ''access'' then Inr (Some k)
          else Inl (InvalidToken ''Given token not valid for any token type'')
      | None \<Rightarrow> Inl (InvalidToken ''Given token not valid for any token type''))"

definition site_uidb64 :: "nat \<Rightarrow> string" where
  "site_uidb64 k = (if k = 1 then ''MQ'' else if k = 2 then ''Mg'' else if k = 3 then ''Mw'' else ''NA'')"

text \<open>
  Modelled from the spec: \<^verbatim>\<open>ResetPasswordSerializer\<close> of
  \<^verbatim>\<open>account/api/base/serializers.py\<close> is not among the sources. Confirm-reset validates
  the token of the link against the user of the encoded id, and the new password;
  saving persists the new password and returns the user.
\<close>

definition site_reset_user :: "dict \<Rightarrow> world \<Rightarrow> user option" where
  "site_reset_user d w =
     (case dict_get d ''uidb64'' of
        Some (JStr s) \<Rightarrow>
          (case filter (\<lambda>u. site_uidb64 (pk u) = s) (users w) of [u] \<Rightarrow> Some u | _ \<Rightarrow> None)
      | _ \<Rightarrow> None)"

definition site_reset_is_valid :: "dict \<Rightarrow> world \<Rightarrow> nat \<Rightarrow> error + dict" where
  "site_reset_is_valid d w now =
     (case (site_reset_user d w, dict_get d ''token'', str_field d ''password'') of
        (Some u, Some (JResetToken tok), Some p) \<Rightarrow>
          if check_token 100 u tok now \<and> 8 \<le> length p then Inr d else Inl ValidationError
      | _ \<Rightarrow> Inl ValidationError)"

definition site_reset_save :: "dict \<Rightarrow> world \<Rightarrow> user \<times> world" where
  "site_reset_save d w =
     (case (site_reset_user d w, str_field d ''password'') of
        (Some u, Some p) \<Rightarrow>
          (let u' = u\<lparr>password := site_password_hash p\<rparr> in (u', user_save u' w))
      | _ \<Rightarrow> (\<lparr>pk = 0, email = [], password = [], is_active = False, verified_email = False,
                  last_login = None\<rparr>, w))"

definition site_token_is_valid :: "dict \<Rightarrow> world \<Rightarrow> nat \<Rightarrow> error + dict" where
  "site_token_is_valid d w now =
     (case (site_reset_user d w, dict_get d ''token'') of
        (Some u, Some (JResetToken tok)) \<Rightarrow>
          if check_token 100 u tok now then Inr d else Inl ValidationError
      | _ \<Rightarrow> Inl ValidationError)"

definition site_user_payload :: "user \<Rightarrow> json" where
  "site_user_payload u =
     JObj [(''id'', JNat (pk u)), (''email'', JStr (email u)),
           (''verified_email'', JBool (verified_email u)),
           (''last_login'', (case last_login u of None \<Rightarrow> JNull | Some t \<Rightarrow> JNat t))]"

definition site_verification_message :: "user \<Rightarrow> mail" where
  "site_verification_message u =
     \<lparr>mail_email = email u, mail_subject = ''Verify your email'',
      mail_template = ''account/email/verify.html'', mail_context = [(''uid'', JNat (pk u))]\<rparr>"

definition site :: env where
  "site =
     \<lparr>LoginSerializer = site_login_serializer,
      UserSerializer = site_user_payload,
      get_tokens_for_user = (\<lambda>u. JObj [(''refresh'', jwt ''refresh'' (pk u) 1000),
                                         (''access'', jwt ''access'' (pk u) 100)]),
      ApiResponse_detail = (\<lambda>a. case a of EMAIL_NOT_VERIFIED \<Rightarrow> ''Email is not verified''
                                         | ACCOUNT_NOT_ACTIVE \<Rightarrow> ''Account is not active''),
      verification_message = site_verification_message,
      delivers = (\<lambda>m. mail_email m \<noteq> []),
      TokenRefreshSerializer = site_refresh_serializer,
      get_validated_token = site_get_validated_token,
      urlsafe_base64_encode = site_uidb64,
      CLIENT_RESET_URL = ''https://client.example/reset'',
      ResetPasswordTokenValidateSerializer = site_token_is_valid,
      ResetPasswordSerializer_is_valid = site_reset_is_valid,
      ResetPasswordSerializer_save = site_reset_save,
      password_policy = (\<lambda>p. 8 \<le> length p),
      make_password = site_password_hash,
      ProfileSerializer_data = (\<lambda>p. JObj ((''id'', JNat (profile_id p)) # profile_fields p)),
      ProfileSerializer_is_valid =
        (\<lambda>partial p d. if partial \<or> dict_get d ''name'' \<noteq> None then Inr d else Inl ValidationError),
      ProfileSerializer_update = (\<lambda>p d. p\<lparr>profile_fields := d @ profile_fields p\<rparr>),
      fullname_of = (\<lambda>d. case dict_get d ''name'' of Some (JStr n) \<Rightarrow> n | _ \<Rightarrow> []),
      view_metadata = JObj []\<rparr>"

text \<open>The same deployment while its email service refuses every message.\<close>

definition site_down :: env where
  "site_down = site\<lparr>delivers := (\<lambda>m. False)\<rparr>"

definition alice :: user where
  "alice = \<lparr>pk = 1, email = ''alice@example.org'', password = ''hash:wonderland'',
            is_active = True, verified_email = True, last_login = Some 10\<rparr>"

definition bob :: user where
  "bob = \<lparr>pk = 2, email = ''bob@example.org'', password = ''hash:builder99'',
          is_active = True, verified_email = False, last_login = None\<rparr>"

definition carol :: user where
  "carol = \<lparr>pk = 3, email = ''carol@example.org'', password = ''hash:carolcarol'',
            is_active = False, verified_email = False, last_login = None\<rparr>"

definition dave :: user where
  "dave = \<lparr>pk = 4, email = ''dave@example.org'', password = ''hash:davedavedave'',
           is_active = False, verified_email = True, last_login = Some 3\<rparr>"

definition dan :: user where
  "dan = \<lparr>pk = 5, email = ''dan@example.org'', password = ''hash:danieldaniel'',
          is_active = True, verified_email = False, last_login = None\<rparr>"

definition alice_profile :: profile where
  "alice_profile = \<lparr>profile_id = 7, user_id = 1, profile_fields = [(''name'', JStr ''Alice'')]\<rparr>"

definition bob_profile :: profile where
  "bob_profile = \<lparr>profile_id = 8, user_id = 2, profile_fields = [(''name'', JStr ''Bob'')]\<rparr>"

definition store :: world where
  "store =
     \<lparr>users = [alice, bob, carol, dave],
      profiles = [alice_profile, bob_profile],
      outbox = []\<rparr>"

definition login_request :: "string \<Rightarrow> string \<Rightarrow> request" where
  "login_request e p =
     \<lparr>http_method = POST, data = [(''email'', JStr e), (''password'', JStr p)],
      req_user = None, url_id = 0\<rparr>"

definition refresh_request :: "json \<Rightarrow> request" where
  "refresh_request j =
     \<lparr>http_method = POST, data = [(''refresh'', j)], req_user = Some 1, url_id = 0\<rparr>"

definition reset_request :: "string \<Rightarrow> reset_token \<Rightarrow> string \<Rightarrow> request" where
  "reset_request uidb64 tok p =
     \<lparr>http_method = POST,
      data = [(''uidb64'', JStr uidb64), (''token'', JResetToken tok), (''password'', JStr p)],
      req_user = Some 1, url_id = 0\<rparr>"


section \<open>Properties\<close>

subsection \<open>Responses and the store\<close>

lemma Response_None: "Response d None = Inr \<lparr>resp_data = d, resp_status = 200\<rparr>"
  by (simp add: Response_def)

lemma Response_200: "Response d (Some (StatusInt HTTP_200_OK)) = Inr \<lparr>resp_data = d, resp_status = 200\<rparr>"
  by (simp add: Response_def HTTP_200_OK_def)

lemma Response_400:
  "Response d (Some (StatusInt HTTP_400_BAD_REQUEST)) = Inr \<lparr>resp_data = d, resp_status = 400\<rparr>"
  by (simp add: Response_def HTTP_400_BAD_REQUEST_def)

lemma py_int_201: "py_int ''201'' = Some 201"
  by (simp add: py_int_def digit_of_def)

lemma Response_201: "Response d (Some (StatusStr ''201'')) = Inr \<lparr>resp_data = d, resp_status = 201\<rparr>"
  by (simp add: Response_def py_int_201)

lemma get_by_pk_append:
  "get_by_pk k (us @ vs) = (case get_by_pk k us of None \<Rightarrow> get_by_pk k vs | Some u \<Rightarrow> Some u)"
  by (induction us) auto

lemma get_by_pk_overwrite:
  "get_by_pk (pk u) us \<noteq> None \<Longrightarrow>
   get_by_pk (pk u) (map (\<lambda>v. if pk v = pk u then u else v) us) = Some u"
  by (induction us) auto

lemma get_by_pk_overwrite_other:
  "k \<noteq> pk u \<Longrightarrow> get_by_pk k (map (\<lambda>v. if pk v = pk u then u else v) us) = get_by_pk k us"
  by (induction us) auto

lemma get_by_pk_user_save: "get_by_pk (pk u) (users (user_save u w)) = Some u"
  by (cases "get_by_pk (pk u) (users w)")
     (simp_all add: user_save_def get_by_pk_append get_by_pk_overwrite)

lemma get_by_pk_user_save_other:
  "k \<noteq> pk u \<Longrightarrow> get_by_pk k (users (user_save u w)) = get_by_pk k (users w)"
  by (cases "get_by_pk k (users w)")
     (simp_all add: user_save_def get_by_pk_append get_by_pk_overwrite_other)

lemma user_save_rest: "outbox (user_save u w) = outbox w" "profiles (user_save u w) = profiles w"
  by (simp_all add: user_save_def)

lemma bumped_row: 
  "get_by_pk (pk u) (users (user_save (u\<lparr>last_login := Some now\<rparr>) w)) = Some (u\<lparr>last_login := Some now\<rparr>)"
  using get_by_pk_user_save [of "u\<lparr>last_login := Some now\<rparr>" w] by simp

subsection \<open>Reset tokens and last-login\<close>

lemma stale_token_rejected:
  assumes "issued_before tok now" and "last_login u = Some now"
  shows "\<not> check_token T u tok t"
proof
  assume "check_token T u tok t"
  then have "tok = make_token u (tok_ts tok)"
    by (simp add: check_token_def)
  then have "tok_login tok = last_login u"
    by (metis make_token_def reset_token.select_convs(2))
  with assms(2) have "tok_login tok = Some now"
    by simp
  with assms(1) show False
    by (auto simp: issued_before_def)
qed

subsection \<open>Login\<close>

text \<open>
  C1. A login request whose credentials pass the serializer's validation and whose
  validated email resolves to a user that is active and has \<open>verified_email\<close> set gets
  a 200 response whose body holds the tokens issued for that user and the serialized
  user; in the store left behind, that user's last-login is the clock reading.
\<close>

theorem login_success:
  assumes "LoginSerializer E (data r) (users w) = Inr validated_data"
    and "User_objects_get (dict_get validated_data ''email'') (users w) = Inr u"
    and "is_active u" and "verified_email u"
  shows "\<exists>w'. LoginAPIView_post E now r w =
           (Inr \<lparr>resp_data = JObj [(''tokens'', get_tokens_for_user E u), (''user'', UserSerializer E u)],
                 resp_status = 200\<rparr>, w')
         \<and> get_by_pk (pk u) (users w') = Some (u\<lparr>last_login := Some now\<rparr>)"
  using assms by (simp add: LoginAPIView_post_def Response_None bumped_row)

lemmas site_simps = site_def site_login_serializer_def str_field_def dict_get_def
  site_password_hash_def User_objects_get_def login_request_def store_def alice_def bob_def carol_def dave_def
  alice_profile_def bob_profile_def
  site_user_payload_def jwt_def

theorem login_success_witness:
  "LoginSerializer site (data (login_request ''alice@example.org'' ''wonderland'')) (users store)
     = Inr [(''email'', JStr ''alice@example.org''), (''password'', JStr ''wonderland'')]
   \<and> User_objects_get (dict_get [(''email'', JStr ''alice@example.org''), (''password'', JStr ''wonderland'')] ''email'') (users store) = Inr alice
   \<and> is_active alice \<and> verified_email alice
   \<and> (\<exists>w'. LoginAPIView_post site 20 (login_request ''alice@example.org'' ''wonderland'') store =
           (Inr \<lparr>resp_data = JObj [(''tokens'', get_tokens_for_user site alice), (''user'', UserSerializer site alice)],
                 resp_status = 200\<rparr>, w')
         \<and> get_by_pk 1 (users w') = Some (alice\<lparr>last_login := Some 20\<rparr>))"
proof -
  let ?d = "[(''email'', JStr ''alice@example.org''), (''password'', JStr ''wonderland'')]"
  have h1: "LoginSerializer site (data (login_request ''alice@example.org'' ''wonderland'')) (users store) = Inr ?d"
    by (simp add: site_simps)
  have h2: "User_objects_get (dict_get ?d ''email'') (users store) = Inr alice"
    by (simp add: site_simps)
  have h3: "is_active alice" and h4: "verified_email alice"
    by (simp_all add: alice_def)
  have k: "pk alice = 1" by (simp add: alice_def)
  show ?thesis
    using login_success [OF h1 h2 h3 h4, of 20] h1 h2 h3 h4 k by simp
qed


subsection \<open>Every successful login, refresh and reset bumps last-login\<close>

lemma login_bumps:
  assumes "LoginAPIView_post E now r w = (Inr resp, w')" and "resp_status resp = 200"
  shows "\<exists>vd u. LoginSerializer E (data r) (users w) = Inr vd
           \<and> User_objects_get (dict_get vd ''email'') (users w) = Inr u
           \<and> get_by_pk (pk u) (users w') = Some (u\<lparr>last_login := Some now\<rparr>)"
  using assms
  by (auto simp: LoginAPIView_post_def Response_None Response_400 bumped_row
           split: sum.splits if_splits)

lemma refresh_bumps:
  assumes "TokenRefreshAPIView_post E now r w = (Inr resp, w')"
  shows "\<exists>vd tk u. TokenRefreshSerializer E (data r) now = Inr vd
           \<and> get_validated_token E (dict_get vd ''access'') = Inr tk
           \<and> get_user tk w = Inr u
           \<and> get_by_pk (pk u) (users w') = Some (u\<lparr>last_login := Some now\<rparr>)"
proof (cases "TokenRefreshSerializer E (data r) now")
  case (Inl e)
  with assms show ?thesis
    by (cases e) (simp_all add: TokenRefreshAPIView_post_def)
next
  case (Inr vd)
  with assms show ?thesis
    by (auto simp: TokenRefreshAPIView_post_def Response_200 bumped_row split: sum.splits)
qed

lemma reset_bumps:
  assumes "ForgetResetPasswordView_post E now r w = (Inr resp, w')"
  shows "\<exists>vd u w1. ResetPasswordSerializer_is_valid E (data r) w now = Inr vd
           \<and> ResetPasswordSerializer_save E vd w = (u, w1)
           \<and> get_by_pk (pk u) (users w') = Some (u\<lparr>last_login := Some now\<rparr>)"
  using assms
  by (auto simp: ForgetResetPasswordView_post_def Response_None bumped_row
           split: sum.splits prod.splits)


text \<open>
  C2. Whenever the login view answers 200, the refresh view answers, or the
  confirm-reset view answers, the user it acted for is stored with last-login equal to
  the clock reading of that request; and no password-reset token issued before that
  request checks against the stored user afterwards, at any later time and whatever
  the timeout, because its signing input holds an older last-login.
\<close>

theorem last_login_bump_invalidates_reset_tokens:
  assumes "issued_before tok now"
  shows "(LoginAPIView_post E now r w = (Inr resp, w') \<and> resp_status resp = 200 \<longrightarrow>
            (\<exists>vd u. LoginSerializer E (data r) (users w) = Inr vd
               \<and> User_objects_get (dict_get vd ''email'') (users w) = Inr u
               \<and> get_by_pk (pk u) (users w') = Some (u\<lparr>last_login := Some now\<rparr>)
               \<and> \<not> check_token T (u\<lparr>last_login := Some now\<rparr>) tok t))
       \<and> (TokenRefreshAPIView_post E now r w = (Inr resp, w') \<longrightarrow>
            (\<exists>vd tk u. TokenRefreshSerializer E (data r) now = Inr vd
               \<and> get_validated_token E (dict_get vd ''access'') = Inr tk
               \<and> get_user tk w = Inr u
               \<and> get_by_pk (pk u) (users w') = Some (u\<lparr>last_login := Some now\<rparr>)
               \<and> \<not> check_token T (u\<lparr>last_login := Some now\<rparr>) tok t))
       \<and> (ForgetResetPasswordView_post E now r w = (Inr resp, w') \<longrightarrow>
            (\<exists>vd u w1. ResetPasswordSerializer_is_valid E (data r) w now = Inr vd
               \<and> ResetPasswordSerializer_save E vd w = (u, w1)
               \<and> get_by_pk (pk u) (users w') = Some (u\<lparr>last_login := Some now\<rparr>)
               \<and> \<not> check_token T (u\<lparr>last_login := Some now\<rparr>) tok t))"
proof -
  have stale: "\<not> check_token T (u\<lparr>last_login := Some now\<rparr>) tok t" for u :: user
    using assms by (intro stale_token_rejected [where now = now]) simp_all
  show ?thesis
  proof (intro conjI impI)
    assume "LoginAPIView_post E now r w = (Inr resp, w') \<and> resp_status resp = 200"
    then show "\<exists>vd u. LoginSerializer E (data r) (users w) = Inr vd
               \<and> User_objects_get (dict_get vd ''email'') (users w) = Inr u
               \<and> get_by_pk (pk u) (users w') = Some (u\<lparr>last_login := Some now\<rparr>)
               \<and> \<not> check_token T (u\<lparr>last_login := Some now\<rparr>) tok t"
      using login_bumps [of E now r w resp w'] stale by blast
  next
    assume "TokenRefreshAPIView_post E now r w = (Inr resp, w')"
    then show "\<exists>vd tk u. TokenRefreshSerializer E (data r) now = Inr vd
               \<and> get_validated_token E (dict_get vd ''access'') = Inr tk
               \<and> get_user tk w = Inr u
               \<and> get_by_pk (pk u) (users w') = Some (u\<lparr>last_login := Some now\<rparr>)
               \<and> \<not> check_token T (u\<lparr>last_login := Some now\<rparr>) tok t"
      using refresh_bumps [of E now r w resp w'] stale by blast
  next
    assume "ForgetResetPasswordView_post E now r w = (Inr resp, w')"
    then show "\<exists>vd u w1. ResetPasswordSerializer_is_valid E (data r) w now = Inr vd
               \<and> ResetPasswordSerializer_save E vd w = (u, w1)
               \<and> get_by_pk (pk u) (users w') = Some (u\<lparr>last_login := Some now\<rparr>)
               \<and> \<not> check_token T (u\<lparr>last_login := Some now\<rparr>) tok t"
      using reset_bumps [of E now r w resp w'] stale by blast
  qed
qed

lemmas site_reset_simps = site_reset_is_valid_def site_reset_save_def site_reset_user_def
  site_uidb64_def reset_request_def check_token_def make_token_def user_save_def Let_def

theorem last_login_bump_invalidates_reset_tokens_witness:
  "issued_before (make_token alice 15) 20
   \<and> check_token 100 alice (make_token alice 15) 18
   \<and> (\<exists>resp w' u. LoginAPIView_post site 20 (login_request ''alice@example.org'' ''wonderland'') store
                       = (Inr resp, w')
          \<and> resp_status resp = 200
          \<and> get_by_pk (pk u) (users w') = Some (u\<lparr>last_login := Some 20\<rparr>)
          \<and> \<not> check_token 100 (u\<lparr>last_login := Some 20\<rparr>) (make_token alice 15) 21)
   \<and> (\<exists>resp w' u. TokenRefreshAPIView_post site 20 (refresh_request (jwt ''refresh'' 1 1000)) store
                       = (Inr resp, w')
          \<and> get_by_pk (pk u) (users w') = Some (u\<lparr>last_login := Some 20\<rparr>)
          \<and> \<not> check_token 100 (u\<lparr>last_login := Some 20\<rparr>) (make_token alice 15) 21)
   \<and> (\<exists>resp w' u. ForgetResetPasswordView_post site 20
                         (reset_request ''MQ'' (make_token alice 15) ''newpassword'') store
                       = (Inr resp, w')
          \<and> get_by_pk (pk u) (users w') = Some (u\<lparr>last_login := Some 20\<rparr>)
          \<and> \<not> check_token 100 (u\<lparr>last_login := Some 20\<rparr>) (make_token alice 15) 21)
   \<and> fst (ForgetResetPasswordView_post site 21
             (reset_request ''MQ'' (make_token alice 15) ''newpassword'')
             (snd (ForgetResetPasswordView_post site 20
                     (reset_request ''MQ'' (make_token alice 15) ''newpassword'') store)))
       = Inl ValidationError"
proof -
  let ?tok = "make_token alice 15"
  have ib: "issued_before ?tok 20"
    by (simp add: issued_before_def make_token_def alice_def)
  have valid: "check_token 100 alice ?tok 18"
    by (simp add: check_token_def make_token_def)
  have "\<exists>resp w'. LoginAPIView_post site 20 (login_request ''alice@example.org'' ''wonderland'') store
           = (Inr resp, w') \<and> resp_status resp = 200"
    by (simp add: LoginAPIView_post_def Response_None site_simps)
  then have login: "\<exists>resp w' u. LoginAPIView_post site 20 (login_request ''alice@example.org'' ''wonderland'') store
                       = (Inr resp, w')
          \<and> resp_status resp = 200
          \<and> get_by_pk (pk u) (users w') = Some (u\<lparr>last_login := Some 20\<rparr>)
          \<and> \<not> check_token 100 (u\<lparr>last_login := Some 20\<rparr>) ?tok 21"
    using last_login_bump_invalidates_reset_tokens [OF ib, of site
        "login_request ''alice@example.org'' ''wonderland''" store _ _ 100 21]
    by blast
  have "\<exists>resp w'. TokenRefreshAPIView_post site 20 (refresh_request (jwt ''refresh'' 1 1000)) store
           = (Inr resp, w')"
    by (simp add: TokenRefreshAPIView_post_def Response_200 site_simps refresh_request_def
          site_refresh_serializer_def site_get_validated_token_def jwt_claims_def get_user_def)
  then have refresh: "\<exists>resp w' u. TokenRefreshAPIView_post site 20 (refresh_request (jwt ''refresh'' 1 1000)) store
                       = (Inr resp, w')
          \<and> get_by_pk (pk u) (users w') = Some (u\<lparr>last_login := Some 20\<rparr>)
          \<and> \<not> check_token 100 (u\<lparr>last_login := Some 20\<rparr>) ?tok 21"
    using last_login_bump_invalidates_reset_tokens [OF ib, of site
        "refresh_request (jwt ''refresh'' 1 1000)" store _ _ 100 21]
    by blast
  have first: "ForgetResetPasswordView_post site 20 (reset_request ''MQ'' ?tok ''newpassword'') store
       = (Inr \<lparr>resp_data = JObj [(''detail'', JStr ''Password reset successful.'')], resp_status = 200\<rparr>,
          store\<lparr>users := [alice\<lparr>password := ''hash:newpassword'', last_login := Some 20\<rparr>, bob, carol, dave]\<rparr>)"
    by (simp add: ForgetResetPasswordView_post_def Response_None site_simps site_reset_simps)
  then have reset: "\<exists>resp w' u. ForgetResetPasswordView_post site 20
                         (reset_request ''MQ'' ?tok ''newpassword'') store
                       = (Inr resp, w')
          \<and> get_by_pk (pk u) (users w') = Some (u\<lparr>last_login := Some 20\<rparr>)
          \<and> \<not> check_token 100 (u\<lparr>last_login := Some 20\<rparr>) ?tok 21"
    using last_login_bump_invalidates_reset_tokens [OF ib, of site
        "reset_request ''MQ'' ?tok ''newpassword''" store _ _ 100 21]
    by blast
  have again: "fst (ForgetResetPasswordView_post site 21 (reset_request ''MQ'' ?tok ''newpassword'')
                 (snd (ForgetResetPasswordView_post site 20 (reset_request ''MQ'' ?tok ''newpassword'') store)))
       = Inl ValidationError"
    unfolding first
    by (simp add: ForgetResetPasswordView_post_def site_simps site_reset_simps)
  from ib valid login refresh reset again show ?thesis
    by blast
qed

subsection \<open>Login refusals\<close>

lemma response_code_error_body:
  "response_code \<lparr>resp_data = error_body E a, resp_status = n\<rparr> = Some (JStr (ApiResponse_code a))"
  by (simp add: response_code_def error_body_def dict_get_def)

text \<open>
  C4 (amended). A login request whose validated email resolves to a user that is
  active and has \<open>verified_email\<close> false, and for which sending the verification
  email does not raise, gets a 400 response whose body is the detail and the code
  \<^verbatim>\<open>EMAIL_NOT_VERIFIED\<close>, and the verification email to that user's address is the one
  message added to the outbox; nothing else of the store changes.
\<close>

theorem login_unverified_resends:
  assumes "LoginSerializer E (data r) (users w) = Inr validated_data"
    and "User_objects_get (dict_get validated_data ''email'') (users w) = Inr u"
    and "is_active u" and "\<not> verified_email u"
    and "delivers E ((verification_message E u)\<lparr>mail_email := email u\<rparr>)"
  shows "\<exists>resp m. LoginAPIView_post E now r w = (Inr resp, w\<lparr>outbox := outbox w @ [m]\<rparr>)
           \<and> resp_status resp = 400
           \<and> resp_data resp
               = JObj [(''detail'', JStr (ApiResponse_detail E EMAIL_NOT_VERIFIED)),
                       (''code'', JStr ''EMAIL_NOT_VERIFIED'')]
           \<and> response_code resp = Some (JStr ''EMAIL_NOT_VERIFIED'')
           \<and> m = (verification_message E u)\<lparr>mail_email := email u\<rparr>
           \<and> mail_email m = email u"
proof -
  let ?m = "(verification_message E u)\<lparr>mail_email := email u\<rparr>"
  let ?resp = "\<lparr>resp_data = error_body E EMAIL_NOT_VERIFIED, resp_status = 400\<rparr>"
  have "LoginAPIView_post E now r w = (Inr ?resp, w\<lparr>outbox := outbox w @ [?m]\<rparr>)"
    using assms
    by (simp add: LoginAPIView_post_def send_verification_email_def email_service_send_def
          Response_400)
  moreover have "resp_data ?resp
      = JObj [(''detail'', JStr (ApiResponse_detail E EMAIL_NOT_VERIFIED)),
              (''code'', JStr ''EMAIL_NOT_VERIFIED'')]"
    by (simp add: error_body_def)
  moreover have "response_code ?resp = Some (JStr ''EMAIL_NOT_VERIFIED'')"
    by (simp add: response_code_error_body)
  ultimately show ?thesis
    by (intro exI [of _ ?resp] exI [of _ ?m]) simp
qed

theorem login_unverified_resends_witness:
  "LoginSerializer site (data (login_request ''bob@example.org'' ''builder99'')) (users store)
     = Inr [(''email'', JStr ''bob@example.org''), (''password'', JStr ''builder99'')]
   \<and> User_objects_get (dict_get [(''email'', JStr ''bob@example.org''), (''password'', JStr ''builder99'')] ''email'')
         (users store) = Inr bob
   \<and> is_active bob \<and> \<not> verified_email bob
   \<and> delivers site ((verification_message site bob)\<lparr>mail_email := email bob\<rparr>)
   \<and> (\<exists>resp m. LoginAPIView_post site 20 (login_request ''bob@example.org'' ''builder99'') store
                    = (Inr resp, store\<lparr>outbox := outbox store @ [m]\<rparr>)
          \<and> resp_status resp = 400
          \<and> resp_data resp
              = JObj [(''detail'', JStr ''Email is not verified''), (''code'', JStr ''EMAIL_NOT_VERIFIED'')]
          \<and> response_code resp = Some (JStr ''EMAIL_NOT_VERIFIED'')
          \<and> mail_email m = ''bob@example.org'')"
proof -
  let ?d = "[(''email'', JStr ''bob@example.org''), (''password'', JStr ''builder99'')]"
  have h1: "LoginSerializer site (data (login_request ''bob@example.org'' ''builder99'')) (users store) = Inr ?d"
    by (simp add: site_simps)
  have h2: "User_objects_get (dict_get ?d ''email'') (users store) = Inr bob"
    by (simp add: site_simps)
  have h3: "is_active bob" and h4: "\<not> verified_email bob"
    by (simp_all add: bob_def)
  have h5: "delivers site ((verification_message site bob)\<lparr>mail_email := email bob\<rparr>)"
    by (simp add: site_def bob_def)
  have d: "ApiResponse_detail site EMAIL_NOT_VERIFIED = ''Email is not verified''"
    by (simp add: site_def)
  have e: "email bob = ''bob@example.org''"
    by (simp add: bob_def)
  from login_unverified_resends [OF h1 h2 h3 h4 h5, of 20]
  obtain resp m where
    "LoginAPIView_post site 20 (login_request ''bob@example.org'' ''builder99'') store
       = (Inr resp, store\<lparr>outbox := outbox store @ [m]\<rparr>)"
    "resp_status resp = 400"
    "resp_data resp
       = JObj [(''detail'', JStr (ApiResponse_detail site EMAIL_NOT_VERIFIED)),
               (''code'', JStr ''EMAIL_NOT_VERIFIED'')]"
    "response_code resp = Some (JStr ''EMAIL_NOT_VERIFIED'')"
    "mail_email m = email bob"
    by blast
  with d e have "\<exists>resp m. LoginAPIView_post site 20 (login_request ''bob@example.org'' ''builder99'') store
                    = (Inr resp, store\<lparr>outbox := outbox store @ [m]\<rparr>)
          \<and> resp_status resp = 400
          \<and> resp_data resp
              = JObj [(''detail'', JStr ''Email is not verified''), (''code'', JStr ''EMAIL_NOT_VERIFIED'')]
          \<and> response_code resp = Some (JStr ''EMAIL_NOT_VERIFIED'')
          \<and> mail_email m = ''bob@example.org''"
    by auto
  with h1 h2 h3 h4 h5 show ?thesis
    by blast
qed

text \<open>
  Without either condition the statement fails. Carol is unverified and inactive: the
  view answers 400 with the code \<^verbatim>\<open>ACCOUNT_NOT_ACTIVE\<close> and the outbox stays empty. Bob is
  unverified and active, but while the email service refuses his message the view
  ends in the exception of the send: there is no 400 response and no message.
\<close>

theorem login_unverified_counterexample:
  "User_objects_get (Some (JStr ''carol@example.org'')) (users store) = Inr carol
   \<and> verified_email carol = False
   \<and> LoginAPIView_post site 20 (login_request ''carol@example.org'' ''carolcarol'') store =
        (Inr \<lparr>resp_data = JObj [(''detail'', JStr ''Account is not active''),
                                 (''code'', JStr ''ACCOUNT_NOT_ACTIVE'')],
              resp_status = 400\<rparr>, store)
   \<and> outbox store = []
   \<and> User_objects_get (Some (JStr ''bob@example.org'')) (users store) = Inr bob
   \<and> verified_email bob = False
   \<and> LoginAPIView_post site_down 20 (login_request ''bob@example.org'' ''builder99'') store
       = (Inl EmailError, store)"
  by (simp add: LoginAPIView_post_def Response_400 site_simps site_down_def error_body_def
        send_verification_email_def email_service_send_def site_verification_message_def)

text \<open>
  C5. A login request whose validated email resolves to a user with \<open>is_active\<close> false
  gets a 400 response whose body is the detail and the code \<^verbatim>\<open>ACCOUNT_NOT_ACTIVE\<close>, and
  the store is left as it was.
\<close>

theorem login_inactive:
  assumes "LoginSerializer E (data r) (users w) = Inr validated_data"
    and "User_objects_get (dict_get validated_data ''email'') (users w) = Inr u"
    and "\<not> is_active u"
  shows "\<exists>resp. LoginAPIView_post E now r w = (Inr resp, w)
           \<and> resp_status resp = 400
           \<and> resp_data resp
               = JObj [(''detail'', JStr (ApiResponse_detail E ACCOUNT_NOT_ACTIVE)),
                       (''code'', JStr ''ACCOUNT_NOT_ACTIVE'')]
           \<and> response_code resp = Some (JStr ''ACCOUNT_NOT_ACTIVE'')"
proof -
  let ?resp = "\<lparr>resp_data = error_body E ACCOUNT_NOT_ACTIVE, resp_status = 400\<rparr>"
  have "LoginAPIView_post E now r w = (Inr ?resp, w)"
    using assms by (simp add: LoginAPIView_post_def Response_400)
  moreover have "resp_data ?resp
      = JObj [(''detail'', JStr (ApiResponse_detail E ACCOUNT_NOT_ACTIVE)),
              (''code'', JStr ''ACCOUNT_NOT_ACTIVE'')]"
    by (simp add: error_body_def)
  moreover have "response_code ?resp = Some (JStr ''ACCOUNT_NOT_ACTIVE'')"
    by (simp add: response_code_error_body)
  ultimately show ?thesis
    by (intro exI [of _ ?resp]) simp
qed

theorem login_inactive_witness:
  "LoginSerializer site (data (login_request ''dave@example.org'' ''davedavedave'')) (users store)
     = Inr [(''email'', JStr ''dave@example.org''), (''password'', JStr ''davedavedave'')]
   \<and> User_objects_get (dict_get [(''email'', JStr ''dave@example.org''), (''password'', JStr ''davedavedave'')] ''email'')
         (users store) = Inr dave
   \<and> \<not> is_active dave
   \<and> (\<exists>resp. LoginAPIView_post site 20 (login_request ''dave@example.org'' ''davedavedave'') store
                  = (Inr resp, store)
          \<and> resp_status resp = 400
          \<and> resp_data resp
              = JObj [(''detail'', JStr ''Account is not active''), (''code'', JStr ''ACCOUNT_NOT_ACTIVE'')]
          \<and> response_code resp = Some (JStr ''ACCOUNT_NOT_ACTIVE''))"
proof -
  let ?d = "[(''email'', JStr ''dave@example.org''), (''password'', JStr ''davedavedave'')]"
  have h1: "LoginSerializer site (data (login_request ''dave@example.org'' ''davedavedave'')) (users store) = Inr ?d"
    by (simp add: site_simps)
  have h2: "User_objects_get (dict_get ?d ''email'') (users store) = Inr dave"
    by (simp add: site_simps)
  have h3: "\<not> is_active dave"
    by (simp add: dave_def)
  have d: "ApiResponse_detail site ACCOUNT_NOT_ACTIVE = ''Account is not active''"
    by (simp add: site_def)
  show ?thesis
    using login_inactive [OF h1 h2 h3, of 20] h1 h2 h3 d by simp
qed

text \<open>
  C10. For a user that is both inactive and unverified the active check decides: the
  answer is the 400 response whose body is the detail and the code
  \<^verbatim>\<open>ACCOUNT_NOT_ACTIVE\<close>, not \<^verbatim>\<open>EMAIL_NOT_VERIFIED\<close>, and no verification email is sent
  (the outbox, like the rest of the store, is unchanged).
\<close>

theorem login_inactive_unverified:
  assumes "LoginSerializer E (data r) (users w) = Inr validated_data"
    and "User_objects_get (dict_get validated_data ''email'') (users w) = Inr u"
    and "\<not> is_active u" and "\<not> verified_email u"
  shows "\<exists>resp. fst (LoginAPIView_post E now r w) = Inr resp
           \<and> resp_status resp = 400
           \<and> resp_data resp
               = JObj [(''detail'', JStr (ApiResponse_detail E ACCOUNT_NOT_ACTIVE)),
                       (''code'', JStr ''ACCOUNT_NOT_ACTIVE'')]
           \<and> response_code resp = Some (JStr ''ACCOUNT_NOT_ACTIVE'')
           \<and> response_code resp \<noteq> Some (JStr ''EMAIL_NOT_VERIFIED'')
           \<and> outbox (snd (LoginAPIView_post E now r w)) = outbox w
           \<and> snd (LoginAPIView_post E now r w) = w"
proof -
  let ?resp = "\<lparr>resp_data = error_body E ACCOUNT_NOT_ACTIVE, resp_status = 400\<rparr>"
  have "LoginAPIView_post E now r w = (Inr ?resp, w)"
    using assms by (simp add: LoginAPIView_post_def Response_400)
  moreover have "resp_data ?resp
      = JObj [(''detail'', JStr (ApiResponse_detail E ACCOUNT_NOT_ACTIVE)),
              (''code'', JStr ''ACCOUNT_NOT_ACTIVE'')]"
    by (simp add: error_body_def)
  moreover have "response_code ?resp = Some (JStr ''ACCOUNT_NOT_ACTIVE'')"
    by (simp add: response_code_error_body)
  ultimately show ?thesis
    by (intro exI [of _ ?resp]) simp
qed

theorem login_inactive_unverified_witness:
  "LoginSerializer site (data (login_request ''carol@example.org'' ''carolcarol'')) (users store)
     = Inr [(''email'', JStr ''carol@example.org''), (''password'', JStr ''carolcarol'')]
   \<and> User_objects_get (dict_get [(''email'', JStr ''carol@example.org''), (''password'', JStr ''carolcarol'')] ''email'')
         (users store) = Inr carol
   \<and> \<not> is_active carol \<and> \<not> verified_email carol
   \<and> (\<exists>resp. fst (LoginAPIView_post site 31 (login_request ''carol@example.org'' ''carolcarol'') store)
                  = Inr resp
          \<and> resp_status resp = 400
          \<and> resp_data resp
              = JObj [(''detail'', JStr ''Account is not active''), (''code'', JStr ''ACCOUNT_NOT_ACTIVE'')]
          \<and> response_code resp = Some (JStr ''ACCOUNT_NOT_ACTIVE''))
   \<and> outbox (snd (LoginAPIView_post site 31 (login_request ''carol@example.org'' ''carolcarol'') store)) = []"
proof -
  let ?d = "[(''email'', JStr ''carol@example.org''), (''password'', JStr ''carolcarol'')]"
  have h1: "LoginSerializer site (data (login_request ''carol@example.org'' ''carolcarol'')) (users store) = Inr ?d"
    by (simp add: site_simps)
  have h2: "User_objects_get (dict_get ?d ''email'') (users store) = Inr carol"
    by (simp add: site_simps)
  have h3: "\<not> is_active carol" and h4: "\<not> verified_email carol"
    by (simp_all add: carol_def)
  have o: "outbox store = []"
    by (simp add: store_def)
  have d: "ApiResponse_detail site ACCOUNT_NOT_ACTIVE = ''Account is not active''"
    by (simp add: site_def)
  from login_inactive_unverified [OF h1 h2 h3 h4, of 31] o d
  have "(\<exists>resp. fst (LoginAPIView_post site 31 (login_request ''carol@example.org'' ''carolcarol'') store)
                  = Inr resp
          \<and> resp_status resp = 400
          \<and> resp_data resp
              = JObj [(''detail'', JStr ''Account is not active''), (''code'', JStr ''ACCOUNT_NOT_ACTIVE'')]
          \<and> response_code resp = Some (JStr ''ACCOUNT_NOT_ACTIVE''))
   \<and> outbox (snd (LoginAPIView_post site 31 (login_request ''carol@example.org'' ''carolcarol'') store)) = []"
    by auto
  with h1 h2 h3 h4 show ?thesis
    by blast
qed

subsection \<open>Token refresh\<close>

text \<open>
  C6. When the refresh serializer rejects the refresh token (its \<^verbatim>\<open>TokenError\<close>, raised
  for an invalid or expired token), the refresh view raises \<^verbatim>\<open>InvalidToken\<close> with the
  same message, an error of status 401, and leaves the whole store, every last-login
  included, as it was. Through the dispatcher a \<^verbatim>\<open>POST\<close> with such a token ends in an
  error of status 401 and an unchanged store, whoever the caller is.
\<close>

theorem refresh_invalid_token:
  assumes "TokenRefreshSerializer E (data r) now = Inl (TokenError m)"
  shows "TokenRefreshAPIView_post E now r w = (Inl (InvalidToken m), w)
         \<and> status_code (InvalidToken m) = 401
         \<and> (http_method r = POST \<longrightarrow>
              (\<exists>e. TokenRefreshAPIView E now r w = (Inl e, w) \<and> status_code e = 401))"
proof -
  have post: "TokenRefreshAPIView_post E now r w = (Inl (InvalidToken m), w)"
    using assms by (simp add: TokenRefreshAPIView_post_def)
  have "\<exists>e. TokenRefreshAPIView E now r w = (Inl e, w) \<and> status_code e = 401"
    if "http_method r = POST"
  proof (cases "req_user r")
    case None
    then have "TokenRefreshAPIView E now r w = (Inl NotAuthenticated, w)"
      by (simp add: TokenRefreshAPIView_def dispatch_def check_permissions_def)
    then show ?thesis by simp
  next
    case (Some c)
    with that post have "TokenRefreshAPIView E now r w = (Inl (InvalidToken m), w)"
      by (simp add: TokenRefreshAPIView_def dispatch_def check_permissions_def
            default_http_method_names_def)
    then show ?thesis by simp
  qed
  with post show ?thesis by simp
qed

theorem refresh_invalid_token_witness:
  "TokenRefreshSerializer site (data (refresh_request (jwt ''refresh'' 1 15))) 20
     = Inl (TokenError ''Token is invalid or expired'')
   \<and> http_method (refresh_request (jwt ''refresh'' 1 15)) = POST
   \<and> TokenRefreshAPIView_post site 20 (refresh_request (jwt ''refresh'' 1 15)) store
       = (Inl (InvalidToken ''Token is invalid or expired''), store)
   \<and> status_code (InvalidToken ''Token is invalid or expired'') = 401
   \<and> (\<exists>e. TokenRefreshAPIView site 20 (refresh_request (jwt ''refresh'' 1 15)) store = (Inl e, store)
          \<and> status_code e = 401)"
proof -
  have h: "TokenRefreshSerializer site (data (refresh_request (jwt ''refresh'' 1 15))) 20
             = Inl (TokenError ''Token is invalid or expired'')"
    by (simp add: site_def refresh_request_def site_refresh_serializer_def jwt_claims_def jwt_def
          dict_get_def)
  have p: "http_method (refresh_request (jwt ''refresh'' 1 15)) = POST"
    by (simp add: refresh_request_def)
  show ?thesis
    using refresh_invalid_token [OF h, of store] h p by simp
qed

subsection \<open>Registration\<close>

lemma fold_max_ge: "(a::nat) \<le> fold max xs a"
  by (induction xs arbitrary: a) (auto intro: order_trans [OF max.cobounded2])

lemma fold_max_member: "(x::nat) \<in> set xs \<Longrightarrow> x \<le> fold max xs a"
proof (induction xs arbitrary: a)
  case Nil
  then show ?case by simp
next
  case (Cons y ys)
  show ?case
  proof (cases "x = y")
    case True
    have "y \<le> max y a" by simp
    also have "\<dots> \<le> fold max ys (max y a)" by (rule fold_max_ge)
    finally show ?thesis using True by simp
  next
    case False
    with Cons show ?thesis by simp
  qed
qed

lemma get_by_pk_None: "(\<And>v. v \<in> set us \<Longrightarrow> pk v \<noteq> k) \<Longrightarrow> get_by_pk k us = None"
  by (induction us) auto

lemma new_pk_fresh: "get_by_pk (new_pk us) us = None"
proof (rule get_by_pk_None)
  fix v assume "v \<in> set us"
  then have "pk v \<in> set (map pk us)" by simp
  then have "pk v \<le> fold max (map pk us) 0" by (rule fold_max_member)
  then show "pk v \<noteq> new_pk us" by (simp add: new_pk_def)
qed

lemma RegisterSerializer_is_valid_unique:
  "RegisterSerializer_is_valid E d w = Inr g \<Longrightarrow> filter (\<lambda>v. email v = reg_email g) (users w) = []"
  by (auto simp: RegisterSerializer_is_valid_def split: option.splits if_splits)

text \<open>
  C7 (amended). A registration request that passes validation (its email is the email
  of no user yet), and for which sending the verification email does not raise,
  creates a user, active and not verified, whose email and primary key no row had
  before; the verification email to that user's address is the one message added to
  the outbox, and the answer is the serialized new user with status 201.
\<close>

theorem register_creates_user:
  assumes "RegisterSerializer_is_valid E (data r) w = Inr g"
    and "RegisterSerializer_save E g w = (u, w1)"
    and "delivers E ((verification_message E u)\<lparr>mail_email := email u\<rparr>)"
  shows "RegisterAPIView_post E now r w =
           (Inr \<lparr>resp_data = UserSerializer E u, resp_status = 201\<rparr>,
            w1\<lparr>outbox := outbox w1 @ [(verification_message E u)\<lparr>mail_email := email u\<rparr>]\<rparr>)
         \<and> users w1 = users w @ [u] \<and> outbox w1 = outbox w
         \<and> email u = reg_email g \<and> is_active u \<and> \<not> verified_email u
         \<and> filter (\<lambda>v. email v = email u) (users w) = []
         \<and> get_by_pk (pk u) (users w) = None"
proof -
  from assms(2) have u: "u = \<lparr>pk = new_pk (users w), email = reg_email g,
      password = make_password E (reg_password g), is_active = True, verified_email = False,
      last_login = None\<rparr>"
    and w1: "users w1 = users w @ [u]" "outbox w1 = outbox w"
    by (auto simp: RegisterSerializer_save_def Let_def)
  have fresh: "get_by_pk (pk u) (users w) = None"
    using new_pk_fresh [of "users w"] by (simp add: u)
  have unique: "filter (\<lambda>v. email v = email u) (users w) = []"
    using RegisterSerializer_is_valid_unique [OF assms(1)] by (simp add: u)
  have "RegisterAPIView_post E now r w =
           (Inr \<lparr>resp_data = UserSerializer E u, resp_status = 201\<rparr>,
            w1\<lparr>outbox := outbox w1 @ [(verification_message E u)\<lparr>mail_email := email u\<rparr>]\<rparr>)"
    using assms
    by (simp add: RegisterAPIView_post_def RegisterAPIView_create_def send_verification_email_def
          email_service_send_def Response_201)
  with w1 fresh unique show ?thesis
    by (simp add: u)
qed

theorem register_creates_user_witness:
  "RegisterSerializer_is_valid site (data (login_request ''dan@example.org'' ''danieldaniel'')) store
     = Inr \<lparr>reg_email = ''dan@example.org'', reg_password = ''danieldaniel'', reg_names = []\<rparr>
   \<and> RegisterSerializer_save site
         \<lparr>reg_email = ''dan@example.org'', reg_password = ''danieldaniel'', reg_names = []\<rparr> store
       = (dan, store\<lparr>users := users store @ [dan],
                      profiles := profiles store @ [\<lparr>profile_id = 9, user_id = 5, profile_fields = []\<rparr>]\<rparr>)
   \<and> delivers site ((verification_message site dan)\<lparr>mail_email := email dan\<rparr>)
   \<and> fst (RegisterAPIView_post site 20 (login_request ''dan@example.org'' ''danieldaniel'') store)
       = Inr \<lparr>resp_data = UserSerializer site dan, resp_status = 201\<rparr>
   \<and> users (snd (RegisterAPIView_post site 20 (login_request ''dan@example.org'' ''danieldaniel'') store))
       = [alice, bob, carol, dave, dan]
   \<and> outbox (snd (RegisterAPIView_post site 20 (login_request ''dan@example.org'' ''danieldaniel'') store))
       = [(verification_message site dan)\<lparr>mail_email := ''dan@example.org''\<rparr>]
   \<and> get_by_pk (pk dan) (users store) = None"
proof -
  let ?g = "\<lparr>reg_email = ''dan@example.org'', reg_password = ''danieldaniel'', reg_names = []\<rparr>"
  let ?w1 = "store\<lparr>users := users store @ [dan],
                   profiles := profiles store @ [\<lparr>profile_id = 9, user_id = 5, profile_fields = []\<rparr>]\<rparr>"
  have h1: "RegisterSerializer_is_valid site (data (login_request ''dan@example.org'' ''danieldaniel'')) store
              = Inr ?g"
    by (simp add: RegisterSerializer_is_valid_def site_simps)
  have h2: "RegisterSerializer_save site ?g store = (dan, ?w1)"
    by (simp add: RegisterSerializer_save_def Let_def new_pk_def new_profile_id_def dan_def
          site_simps)
  have h3: "delivers site ((verification_message site dan)\<lparr>mail_email := email dan\<rparr>)"
    by (simp add: site_def dan_def)
  have e: "email dan = ''dan@example.org''"
    by (simp add: dan_def)
  have s: "users store = [alice, bob, carol, dave]" "outbox store = []"
    by (simp_all add: store_def)
  show ?thesis
    using register_creates_user [OF h1 h2 h3, of 20] h1 h2 h3 e s by simp
qed

text \<open>
  Without the condition on the send the statement fails: while the email service
  refuses the message, the same valid registration ends in the exception of the send,
  with no 201 response and no message, and the new user already in the store.
\<close>

theorem register_creates_user_counterexample:
  "RegisterSerializer_is_valid site_down (data (login_request ''dan@example.org'' ''danieldaniel'')) store
     = Inr \<lparr>reg_email = ''dan@example.org'', reg_password = ''danieldaniel'', reg_names = []\<rparr>
   \<and> fst (RegisterAPIView_post site_down 20 (login_request ''dan@example.org'' ''danieldaniel'') store)
       = Inl EmailError
   \<and> users (snd (RegisterAPIView_post site_down 20 (login_request ''dan@example.org'' ''danieldaniel'') store))
       = [alice, bob, carol, dave, dan]
   \<and> outbox (snd (RegisterAPIView_post site_down 20 (login_request ''dan@example.org'' ''danieldaniel'') store))
       = []"
  by (simp add: RegisterAPIView_post_def RegisterAPIView_create_def RegisterSerializer_is_valid_def
        RegisterSerializer_save_def Let_def new_pk_def new_profile_id_def
        send_verification_email_def email_service_send_def site_down_def site_simps dan_def)

subsection \<open>Forgotten passwords\<close>

text \<open>
  C3 (amended). Take a forget-password request whose email is that of an existing
  user who has a profile and for whom sending the reset email does not raise, and one
  whose email is that of no user. The view gives both the same answer, the generic
  success body with status 200. For the known email the reset message to that user's
  address is the one message added to the outbox; for the unknown email the failed
  lookup is swallowed and the store is left as it was.
\<close>

theorem forget_password_same_response:
  assumes "User_objects_get (dict_get (data r1) ''email'') (users w1) = Inr u"
    and "user_profile u w1 = Inr p"
    and "delivers E (password_reset_mail E u p (urlsafe_base64_encode E (pk u)) (make_token u now1))"
    and "User_objects_get (dict_get (data r2) ''email'') (users w2) = Inl DoesNotExist"
  shows "fst (ForgetPasswordView_post E now1 r1 w1) = fst (ForgetPasswordView_post E now2 r2 w2)
         \<and> ForgetPasswordView_post E now2 r2 w2
             = (Inr \<lparr>resp_data = JObj [(''detail'', JStr ''Password reset email sent if the email exists'')],
                     resp_status = 200\<rparr>, w2)
         \<and> snd (ForgetPasswordView_post E now1 r1 w1)
             = w1\<lparr>outbox := outbox w1 @
                    [password_reset_mail E u p (urlsafe_base64_encode E (pk u)) (make_token u now1)]\<rparr>
         \<and> mail_email (password_reset_mail E u p (urlsafe_base64_encode E (pk u)) (make_token u now1))
             = email u"
proof -
  let ?generic = "\<lparr>resp_data = JObj [(''detail'', JStr ''Password reset email sent if the email exists'')],
                   resp_status = 200\<rparr>"
  let ?m = "password_reset_mail E u p (urlsafe_base64_encode E (pk u)) (make_token u now1)"
  have known: "ForgetPasswordView_post E now1 r1 w1 = (Inr ?generic, w1\<lparr>outbox := outbox w1 @ [?m]\<rparr>)"
    using assms(1-3)
    by (simp add: ForgetPasswordView_post_def ForgetPasswordView_try_def email_service_send_def
          Response_None Let_def generic_forget_response_def)
  have unknown: "ForgetPasswordView_post E now2 r2 w2 = (Inr ?generic, w2)"
    using assms(4)
    by (simp add: ForgetPasswordView_post_def ForgetPasswordView_try_def Response_None
          generic_forget_response_def)
  have "mail_email ?m = email u"
    by (simp add: password_reset_mail_def)
  with known unknown show ?thesis by simp
qed

lemma forget_password_uncaught:
  "ForgetPasswordView_try E now r w = Inl e \<Longrightarrow> e \<noteq> DoesNotExist \<Longrightarrow>
   ForgetPasswordView_post E now r w = (Inl e, w)"
  by (simp add: ForgetPasswordView_post_def)

theorem forget_password_same_response_witness:
  "User_objects_get (dict_get (data (login_request ''alice@example.org'' [])) ''email'') (users store)
     = Inr alice
   \<and> user_profile alice store = Inr alice_profile
   \<and> delivers site
         (password_reset_mail site alice alice_profile (urlsafe_base64_encode site (pk alice))
            (make_token alice 15))
   \<and> User_objects_get (dict_get (data (login_request ''nobody@example.org'' [])) ''email'') (users store)
       = Inl DoesNotExist
   \<and> fst (ForgetPasswordView_post site 15 (login_request ''alice@example.org'' []) store)
       = fst (ForgetPasswordView_post site 16 (login_request ''nobody@example.org'' []) store)
   \<and> ForgetPasswordView_post site 16 (login_request ''nobody@example.org'' []) store
       = (Inr \<lparr>resp_data = JObj [(''detail'', JStr ''Password reset email sent if the email exists'')],
               resp_status = 200\<rparr>, store)
   \<and> outbox (snd (ForgetPasswordView_post site 15 (login_request ''alice@example.org'' []) store))
       = [\<lparr>mail_email = ''alice@example.org'', mail_subject = ''Password Reset'',
           mail_template = ''account/email/password_reset.html'',
           mail_context = [(''user_name'', JStr ''Alice''), (''uidb64'', JStr ''MQ''),
                           (''token'', JResetToken \<lparr>tok_uid = 1, tok_login = Some 10, tok_ts = 15\<rparr>),
                           (''CLIENT_RESET_URL'', JStr ''https://client.example/reset'')]\<rparr>]"
proof -
  have h1: "User_objects_get (dict_get (data (login_request ''alice@example.org'' [])) ''email'')
              (users store) = Inr alice"
    by (simp add: site_simps)
  have h2: "user_profile alice store = Inr alice_profile"
    by (simp add: user_profile_def store_def alice_def alice_profile_def bob_profile_def)
  have h3: "delivers site (password_reset_mail site alice alice_profile
              (urlsafe_base64_encode site (pk alice)) (make_token alice 15))"
    by (simp add: site_def password_reset_mail_def alice_def)
  have h4: "User_objects_get (dict_get (data (login_request ''nobody@example.org'' [])) ''email'')
              (users store) = Inl DoesNotExist"
    by (simp add: site_simps)
  have m: "password_reset_mail site alice alice_profile (urlsafe_base64_encode site (pk alice))
             (make_token alice 15)
           = \<lparr>mail_email = ''alice@example.org'', mail_subject = ''Password Reset'',
               mail_template = ''account/email/password_reset.html'',
               mail_context = [(''user_name'', JStr ''Alice''), (''uidb64'', JStr ''MQ''),
                               (''token'', JResetToken \<lparr>tok_uid = 1, tok_login = Some 10, tok_ts = 15\<rparr>),
                               (''CLIENT_RESET_URL'', JStr ''https://client.example/reset'')]\<rparr>"
    by (simp add: password_reset_mail_def get_fullname_def make_token_def site_uidb64_def
          site_def alice_def alice_profile_def dict_get_def)
  have o: "outbox store = []"
    by (simp add: store_def)
  note t = forget_password_same_response [OF h1 h2 h3 h4, of 16]
  from t have same:
    "fst (ForgetPasswordView_post site 15 (login_request ''alice@example.org'' []) store)
       = fst (ForgetPasswordView_post site 16 (login_request ''nobody@example.org'' []) store)"
    by (rule conjunct1)
  from t have unknown:
    "ForgetPasswordView_post site 16 (login_request ''nobody@example.org'' []) store
       = (Inr \<lparr>resp_data = JObj [(''detail'', JStr ''Password reset email sent if the email exists'')],
               resp_status = 200\<rparr>, store)"
    by (rule conjunct1 [OF conjunct2])
  from t have "snd (ForgetPasswordView_post site 15 (login_request ''alice@example.org'' []) store)
       = store\<lparr>outbox := outbox store @
            [password_reset_mail site alice alice_profile (urlsafe_base64_encode site (pk alice))
               (make_token alice 15)]\<rparr>"
    by (rule conjunct1 [OF conjunct2 [OF conjunct2]])
  then have "outbox (snd (ForgetPasswordView_post site 15 (login_request ''alice@example.org'' []) store))
       = outbox store @
            [password_reset_mail site alice alice_profile (urlsafe_base64_encode site (pk alice))
               (make_token alice 15)]"
    by simp
  then have sent:
    "outbox (snd (ForgetPasswordView_post site 15 (login_request ''alice@example.org'' []) store))
       = [\<lparr>mail_email = ''alice@example.org'', mail_subject = ''Password Reset'',
           mail_template = ''account/email/password_reset.html'',
           mail_context = [(''user_name'', JStr ''Alice''), (''uidb64'', JStr ''MQ''),
                           (''token'', JResetToken \<lparr>tok_uid = 1, tok_login = Some 10, tok_ts = 15\<rparr>),
                           (''CLIENT_RESET_URL'', JStr ''https://client.example/reset'')]\<rparr>]"
    by (simp only: m o append_Nil)
  from h1 h2 h3 h4 same unknown sent show ?thesis
    by (intro conjI)
qed

text \<open>
  Without the two conditions on the known user the statement fails. Carol exists but
  has no profile: her request ends in the exception of \<^verbatim>\<open>user.profile\<close>, which the view
  does not catch. Alice has a profile, but while the email service refuses the message
  her request ends in the exception of the send. The unknown email gets the generic
  200 answer in both deployments, so the answers tell a known email from an unknown one.
\<close>

theorem forget_password_same_response_counterexample:
  "User_objects_get (dict_get (data (login_request ''carol@example.org'' [])) ''email'') (users store)
     = Inr carol
   \<and> User_objects_get (dict_get (data (login_request ''nobody@example.org'' [])) ''email'') (users store)
       = Inl DoesNotExist
   \<and> fst (ForgetPasswordView_post site 15 (login_request ''carol@example.org'' []) store)
       = Inl RelatedObjectDoesNotExist
   \<and> fst (ForgetPasswordView_post site 15 (login_request ''nobody@example.org'' []) store)
       = Inr \<lparr>resp_data = JObj [(''detail'', JStr ''Password reset email sent if the email exists'')],
              resp_status = 200\<rparr>
   \<and> User_objects_get (dict_get (data (login_request ''alice@example.org'' [])) ''email'') (users store)
       = Inr alice
   \<and> fst (ForgetPasswordView_post site_down 15 (login_request ''alice@example.org'' []) store)
       = Inl EmailError
   \<and> fst (ForgetPasswordView_post site_down 15 (login_request ''nobody@example.org'' []) store)
       = Inr \<lparr>resp_data = JObj [(''detail'', JStr ''Password reset email sent if the email exists'')],
              resp_status = 200\<rparr>"
  by (simp add: ForgetPasswordView_post_def ForgetPasswordView_try_def user_profile_def
        email_service_send_def Response_None Let_def generic_forget_response_def site_down_def
        site_simps)

subsection \<open>The password-reset flow needs an authenticated caller\<close>

lemma dispatch_anonymous:
  "req_user r = None \<Longrightarrow> dispatch [IsAuthenticated] names handlers r w = (Inl NotAuthenticated, w)"
  by (simp add: dispatch_def check_permissions_def)

text \<open>
  C9. A request without an authenticated principal is refused by each of the three
  views of the password-reset flow, forget-password, validate-reset-token and
  confirm-reset, with \<^verbatim>\<open>NotAuthenticated\<close>, whatever its method and body; the store is
  left as it was, so no email is sent and no password or last-login changes.
\<close>

theorem reset_flow_requires_authentication:
  assumes "req_user r = None"
  shows "ForgetPasswordView E now r w = (Inl NotAuthenticated, w)
         \<and> ValidateResetPasswordTokenView E now r w = (Inl NotAuthenticated, w)
         \<and> ForgetResetPasswordView E now r w = (Inl NotAuthenticated, w)"
  using assms
  by (simp add: ForgetPasswordView_def ValidateResetPasswordTokenView_def
        ForgetResetPasswordView_def dispatch_anonymous)

theorem reset_flow_requires_authentication_witness:
  "req_user (login_request ''alice@example.org'' []) = None
   \<and> ForgetPasswordView site 15 (login_request ''alice@example.org'' []) store
       = (Inl NotAuthenticated, store)
   \<and> ValidateResetPasswordTokenView site 15 (login_request ''alice@example.org'' []) store
       = (Inl NotAuthenticated, store)
   \<and> ForgetResetPasswordView site 15 (login_request ''alice@example.org'' []) store
       = (Inl NotAuthenticated, store)
   \<and> fst (ForgetPasswordView site 15
             ((login_request ''alice@example.org'' [])\<lparr>req_user := Some 2\<rparr>) store)
       = Inr \<lparr>resp_data = generic_forget_response, resp_status = 200\<rparr>"
proof -
  have h: "req_user (login_request ''alice@example.org'' []) = None"
    by (simp add: login_request_def)
  have authenticated:
    "fst (ForgetPasswordView site 15 ((login_request ''alice@example.org'' [])\<lparr>req_user := Some 2\<rparr>) store)
       = Inr \<lparr>resp_data = generic_forget_response, resp_status = 200\<rparr>"
    by (simp add: ForgetPasswordView_def dispatch_def check_permissions_def
          default_http_method_names_def ForgetPasswordView_post_def ForgetPasswordView_try_def
          email_service_send_def user_profile_def password_reset_mail_def Response_None Let_def
          site_simps)
  show ?thesis
    using reset_flow_requires_authentication [OF h, of site 15 store] h authenticated by simp
qed

subsection \<open>The profile endpoint\<close>











end
